theory Spec2Isabelle
  imports Main
begin

section \<open>The legal-team page: data\<close>

text \<open>
  \<^verbatim>\<open>legal_team.py\<close> is a Streamlit script: the whole file is executed from top to bottom on
  every interaction with the page. What survives from one execution to the next is
  \<^verbatim>\<open>st.session_state\<close>, the process environment and the vector store on disk. One
  execution is modelled as the function \<open>run_page\<close> from the widget values of that
  execution and the surviving state to the new surviving state and the page that was drawn.
  The lookup of the API key in line 46 either raises, which ends the execution there, or
  returns; \<open>run_script\<close> is the execution in which it has returned, with the returned value
  in the field \<open>secret_google_api_key\<close> of the widget values.

  The calls into the libraries (temporary file, knowledge-base load, agent run) are
  parameters of the model, collected in the record \<open>env\<close>. Each may raise; each is given
  the number of library calls made before it, so that the same call may answer differently
  at different times. Every library call is appended to a log when it is made, before its
  result is known.

  Characters of Isabelle strings are bytes; the emoji that start some of the script's
  captions are left out of the captions below. The static banner of lines 15 to 25 draws
  no state and is left out as well.
\<close>

datatype embedder = GeminiEmbedder

record chroma_db =
  collection :: string
  db_path :: string
  persistent_client :: bool
  embedder :: embedder

datatype reader = PDFReader

record document_chunking =
  chunk_size :: int
  overlap :: int

record pdf_knowledge_base =
  path :: string
  kb_vector_db :: chroma_db
  reader :: reader
  chunking_strategy :: document_chunking

record session_state =
  vector_db :: chroma_db
  knowledge_base :: "pdf_knowledge_base option"
  processed_files :: "string set"

record uploaded_file =
  name :: string
  getvalue :: string

datatype analysis_type =
  ContractReview | LegalResearch | RiskAssessment | ComplianceCheck | CustomQuery

record widgets =
  secret_google_api_key :: "string option"
  chunk_size_in :: int
  overlap_in :: int
  uploaded_file :: "uploaded_file option"
  analysis_type :: analysis_type
  text_area :: string
  analyze_button :: bool

datatype tool = DuckDuckGoTools

record agent =
  agent_name :: string
  model :: string
  knowledge :: "pdf_knowledge_base option"
  search_knowledge :: "bool option"
  description :: string
  instructions :: "string list"
  tools :: "tool list"
  show_tool_calls :: bool
  markdown :: bool

text \<open>
  A run response: \<open>content\<close> is the attribute the script reads, \<open>as_str\<close> is the text
  Python's \<^verbatim>\<open>str()\<close> gives for the whole object, which is what an f-string inserts for
  \<^verbatim>\<open>{research_response}\<close>.
\<close>

record run_response =
  content :: "string option"
  as_str :: string

type_synonym chunk = "string \<times> string"

type_synonym store = "string \<Rightarrow> chunk list option"

datatype call =
  TempWrite string
| KbLoad bool bool pdf_knowledge_base
| AgentRun agent string

datatype ui =
  Header string
| Subheader string
| Success string
| Error string
| Warning string
| Markdown string
| Tabs "string list"

record env =
  temp_write :: "nat \<Rightarrow> string \<Rightarrow> string + string"
  kb_load :: "nat \<Rightarrow> bool \<Rightarrow> bool \<Rightarrow> pdf_knowledge_base \<Rightarrow> store \<Rightarrow> string option \<times> store"
  agent_run :: "nat \<Rightarrow> agent \<Rightarrow> string \<Rightarrow> string + run_response"

text \<open>What survives between executions of the script; \<open>session = None\<close> is a new session,
  whose \<^verbatim>\<open>st.session_state\<close> holds no key yet.\<close>

record world =
  session :: "session_state option"
  os_environ :: "string option"
  vector_store :: store
  history :: "call list"

text \<open>The state during one execution.\<close>

record run_state =
  ss :: session_state
  environ :: "string option"
  store :: store
  calls :: "call list"
  page :: "ui list"

record run_result =
  after :: world
  shown :: "ui list"
  uncaught :: "string option"

section \<open>The script\<close>

definition nl :: string where
  "nl = [CHR 0x0A]"

definition say :: "ui \<Rightarrow> run_state \<Rightarrow> run_state" where
  "say u st = st\<lparr>page := page st @ [u]\<rparr>"

text \<open>Sequencing of two steps of which the first may raise (\<open>Inl\<close>): the exception
  propagates and the second step is not run.\<close>

definition and_then ::
  "('e + 'a) \<times> 's \<Rightarrow> ('a \<Rightarrow> 's \<Rightarrow> ('e + 'b) \<times> 's) \<Rightarrow> ('e + 'b) \<times> 's" where
  "and_then m f = (case m of (Inl e, s) \<Rightarrow> (Inl e, s) | (Inr x, s) \<Rightarrow> f x s)"

text \<open>Lines 29 to 38: each key is set only when the session does not have it yet.\<close>

definition init_session_state :: "session_state option \<Rightarrow> session_state" where
  "init_session_state s =
     (case s of
        None \<Rightarrow>
          \<lparr>vector_db = \<lparr>collection = ''law'', db_path = ''tmp/chromadb'',
                         persistent_client = True, embedder = GeminiEmbedder\<rparr>,
           knowledge_base = None,
           processed_files = {}\<rparr>
      | Some s' \<Rightarrow> s')"

definition start :: "world \<Rightarrow> run_state" where
  "start w =
     \<lparr>ss = init_session_state (session w), environ = os_environ w,
      store = vector_store w, calls = history w, page = []\<rparr>"

definition finish :: "run_state \<Rightarrow> world" where
  "finish st =
     \<lparr>session = Some (ss st), os_environ = environ st,
      vector_store = store st, history = calls st\<rparr>"

text \<open>Python truthiness of \<^verbatim>\<open>st.secrets.get("GOOGLE_API_KEY", None)\<close> and of a response's
  content: neither \<^verbatim>\<open>None\<close> nor the empty string.\<close>

definition truthy :: "string option \<Rightarrow> bool" where
  "truthy v = (case v of None \<Rightarrow> False | Some s \<Rightarrow> s \<noteq> [])"

text \<open>Lines 48 to 52, on the value \<open>api_key\<close> that the lookup of line 46 has returned.\<close>

definition load_api_key :: "widgets \<Rightarrow> run_state \<Rightarrow> run_state" where
  "load_api_key inp st =
     (case secret_google_api_key inp of
        None \<Rightarrow> say (Error ''Missing Google API Key in Streamlit secrets!'') st
      | Some api_key \<Rightarrow>
          if api_key \<noteq> []
          then say (Success ''API key loaded from secrets!'') (st\<lparr>environ := Some api_key\<rparr>)
          else say (Error ''Missing Google API Key in Streamlit secrets!'') st)"

text \<open>Lines 65 to 79, the body of the \<^verbatim>\<open>try\<close>: \<open>Inl e\<close> is the exception it raised, with
  the state as it was when it was raised.\<close>

definition ingest_body ::
  "env \<Rightarrow> widgets \<Rightarrow> uploaded_file \<Rightarrow> run_state \<Rightarrow> (string + unit) \<times> run_state" where
  "ingest_body env inp f st =
     (let st1 = st\<lparr>calls := calls st @ [TempWrite (getvalue f)]\<rparr>
      in case temp_write env (length (calls st)) (getvalue f) of
           Inl e \<Rightarrow> (Inl e, st1)
         | Inr temp_path \<Rightarrow>
             (let kb = \<lparr>path = temp_path, kb_vector_db = vector_db (ss st1),
                        reader = PDFReader,
                        chunking_strategy =
                          \<lparr>chunk_size = chunk_size_in inp, overlap = overlap_in inp\<rparr>\<rparr>;
                  st2 = st1\<lparr>ss := (ss st1)\<lparr>knowledge_base := Some kb\<rparr>\<rparr>;
                  st3 = st2\<lparr>calls := calls st2 @ [KbLoad True True kb]\<rparr>
              in case kb_load env (length (calls st2)) True True kb (store st2) of
                   (Some e, store') \<Rightarrow> (Inl e, st3\<lparr>store := store'\<rparr>)
                 | (None, store') \<Rightarrow>
                     (let st4 = st3\<lparr>store := store'\<rparr>;
                          st5 = st4\<lparr>ss := (ss st4)\<lparr>processed_files :=
                                   insert (name f) (processed_files (ss st4))\<rparr>\<rparr>
                      in (Inr (),
                          say (Success ''Document processed and stored in knowledge base!'')
                            st5))))"

text \<open>Lines 64 to 82: the \<^verbatim>\<open>try\<close> with its \<^verbatim>\<open>except Exception\<close>.\<close>

definition ingest :: "env \<Rightarrow> widgets \<Rightarrow> uploaded_file \<Rightarrow> run_state \<Rightarrow> run_state" where
  "ingest env inp f st =
     (case ingest_body env inp f st of
        (Inl e, st') \<Rightarrow> say (Error (''Error processing document: '' @ e)) st'
      | (Inr u, st') \<Rightarrow> st')"

text \<open>Lines 42 to 59: the sidebar down to the file uploader.\<close>

definition sidebar_config :: "widgets \<Rightarrow> run_state \<Rightarrow> run_state" where
  "sidebar_config inp st =
     say (Header ''Document Upload'') (load_api_key inp (say (Header ''Configuration'') st))"

text \<open>Lines 42 to 82.\<close>

definition sidebar :: "env \<Rightarrow> widgets \<Rightarrow> run_state \<Rightarrow> run_state" where
  "sidebar env inp st =
     (let st2 = sidebar_config inp st
      in case uploaded_file inp of
           None \<Rightarrow> st2
         | Some f \<Rightarrow>
             if name f \<notin> processed_files (ss st2) then ingest env inp f st2 else st2)"

text \<open>Lines 87 to 141: the four agents.\<close>

definition legal_researcher :: "pdf_knowledge_base \<Rightarrow> agent" where
  "legal_researcher kb =
     \<lparr>agent_name = ''LegalAdvisor'',
      model = ''gemini-2.0-flash-exp'',
      knowledge = Some kb,
      search_knowledge = Some True,
      description = ''Finds and cites relevant legal cases, regulations, and precedents.'',
      instructions =
        [''Extract all available data from the knowledge base and search for legal cases, regulations, and citations.'',
         ''If needed, use DuckDuckGo for additional legal references.'',
         ''Always provide source references in your answers.''],
      tools = [DuckDuckGoTools],
      show_tool_calls = True,
      markdown = True\<rparr>"

definition contract_analyst :: "pdf_knowledge_base \<Rightarrow> agent" where
  "contract_analyst kb =
     \<lparr>agent_name = ''ContractAnalyst'',
      model = ''gemini-2.0-flash-exp'',
      knowledge = Some kb,
      search_knowledge = Some True,
      description = ''Identifies key clauses, risks, and obligations in contracts.'',
      instructions =
        [''Extract all available data from the knowledge base and analyze the contract for key clauses, obligations, and potential ambiguities.'',
         ''Reference specific sections of the contract where possible.''],
      tools = [],
      show_tool_calls = True,
      markdown = True\<rparr>"

definition legal_strategist :: "pdf_knowledge_base \<Rightarrow> agent" where
  "legal_strategist kb =
     \<lparr>agent_name = ''LegalStrategist'',
      model = ''gemini-2.0-flash-exp'',
      knowledge = Some kb,
      search_knowledge = Some True,
      description = ''Provides strategic legal recommendations and risk assessment.'',
      instructions =
        [''Using all data from the knowledge base, assess the contract for legal risks and opportunities.'',
         ''Provide actionable recommendations and ensure compliance with applicable laws.''],
      tools = [],
      show_tool_calls = True,
      markdown = True\<rparr>"

definition team_lead :: agent where
  "team_lead =
     \<lparr>agent_name = ''teamlead'',
      model = ''gemini-2.0-flash-exp'',
      knowledge = None,
      search_knowledge = None,
      description = ''Integrates insights from all agents into a comprehensive report.'',
      instructions =
        [''Combine and summarize all insights provided by the Legal Researcher, Contract Analyst, and Legal Strategist. '' @
         ''Ensure the final report includes references to all relevant sections from the document.''],
      tools = [],
      show_tool_calls = True,
      markdown = True\<rparr>"

text \<open>\<^verbatim>\<open>agent.run(q)\<close>: the call is logged, then it returns or raises.\<close>

definition run_agent ::
  "env \<Rightarrow> agent \<Rightarrow> string \<Rightarrow> run_state \<Rightarrow> (string + run_response) \<times> run_state" where
  "run_agent env a q st =
     (agent_run env (length (calls st)) a q, st\<lparr>calls := calls st @ [AgentRun a q]\<rparr>)"

text \<open>The prompt of lines 149 to 153.\<close>

definition team_prompt :: "run_response \<Rightarrow> run_response \<Rightarrow> run_response \<Rightarrow> string" where
  "team_prompt research_response contract_response strategy_response =
     ''Summarize and integrate the following insights:'' @ nl @ nl @
     ''Legal Researcher:'' @ nl @ as_str research_response @ nl @ nl @
     ''Contract Analyst:'' @ nl @ as_str contract_response @ nl @ nl @
     ''Legal Strategist:'' @ nl @ as_str strategy_response @ nl @ nl @
     ''Provide a structured legal analysis report that includes key terms, obligations, risks, and recommendations.''"

text \<open>Lines 143 to 155.\<close>

definition get_team_response ::
  "env \<Rightarrow> pdf_knowledge_base \<Rightarrow> string \<Rightarrow> run_state \<Rightarrow> (string + run_response) \<times> run_state" where
  "get_team_response env kb query st =
     and_then (run_agent env (legal_researcher kb) query st) (\<lambda>research_response st1.
     and_then (run_agent env (contract_analyst kb) query st1) (\<lambda>contract_response st2.
     and_then (run_agent env (legal_strategist kb) query st2) (\<lambda>strategy_response st3.
       run_agent env team_lead
         (team_prompt research_response contract_response strategy_response) st3)))"

text \<open>An f-string's \<^verbatim>\<open>{response.content}\<close>, and \<^verbatim>\<open>x.content if x.content else fallback\<close>.\<close>

definition py_str :: "string option \<Rightarrow> string" where
  "py_str v = (case v of None \<Rightarrow> ''None'' | Some s \<Rightarrow> s)"

definition content_or :: "run_response \<Rightarrow> string \<Rightarrow> string" where
  "content_or r fallback = (if truthy (content r) then py_str (content r) else fallback)"

definition summary_prompt :: "run_response \<Rightarrow> string" where
  "summary_prompt response =
     ''Summarize the key legal points from this analysis:'' @ nl @ py_str (content response)"

definition recommendations_prompt :: "run_response \<Rightarrow> string" where
  "recommendations_prompt response =
     ''Provide legal recommendations based on this analysis:'' @ nl @ py_str (content response)"

text \<open>Lines 190 to 207, the \<^verbatim>\<open>else\<close> branch of the Analyze handler.\<close>

definition analyze ::
  "env \<Rightarrow> pdf_knowledge_base \<Rightarrow> string \<Rightarrow> run_state \<Rightarrow> (string + unit) \<times> run_state" where
  "analyze env kb query st =
     and_then (get_team_response env kb query st) (\<lambda>response st1.
       (let st2 = say (Tabs [''Analysis'', ''Key Points'', ''Recommendations'']) st1;
            st3 = say (Subheader ''Detailed Analysis'') st2;
            st4 = say (Markdown (content_or response ''No response generated.'')) st3;
            st5 = say (Subheader ''Key Points Summary'') st4
        in and_then (run_agent env team_lead (summary_prompt response) st5) (\<lambda>summary st6.
          (let st7 = say (Markdown (content_or summary ''No summary generated.'')) st6;
               st8 = say (Subheader ''Recommendations'') st7
           in and_then (run_agent env team_lead (recommendations_prompt response) st8)
                (\<lambda>recommendations st9.
                   (Inr (),
                    say (Markdown (content_or recommendations ''No recommendations generated.''))
                      st9))))))"

text \<open>Lines 170 to 183: the dictionary of predefined queries.\<close>

fun predefined_queries :: "analysis_type \<Rightarrow> string option" where
  "predefined_queries ContractReview =
     Some ''Analyze this contract using the knowledge base. Identify key terms, obligations, and risks.''"
| "predefined_queries LegalResearch =
     Some ''Find relevant legal cases and precedents using the knowledge base.''"
| "predefined_queries RiskAssessment =
     Some ''Identify potential legal risks in the document and cite specific sections.''"
| "predefined_queries ComplianceCheck =
     Some ''Evaluate this document for compliance with legal regulations and highlight any concerns.''"
| "predefined_queries CustomQuery = None"

text \<open>Lines 166 to 184: the query of this execution; a key missing from the dictionary
  would raise \<^verbatim>\<open>KeyError\<close>.\<close>

definition select_query :: "widgets \<Rightarrow> string + string" where
  "select_query inp =
     (if analysis_type inp = CustomQuery then Inr (text_area inp)
      else (case predefined_queries (analysis_type inp) of
              None \<Rightarrow> Inl ''KeyError''
            | Some q \<Rightarrow> Inr q))"

text \<open>Lines 159 to 207.\<close>

definition analysis_panel ::
  "env \<Rightarrow> widgets \<Rightarrow> run_state \<Rightarrow> (string + unit) \<times> run_state" where
  "analysis_panel env inp st =
     (case knowledge_base (ss st) of
        None \<Rightarrow> (Inr (), st)
      | Some kb \<Rightarrow>
          (let st1 = say (Header ''Select Analysis Type'') st
           in case select_query inp of
                Inl e \<Rightarrow> (Inl e, st1)
              | Inr query \<Rightarrow>
                  if analyze_button inp
                  then (if query = [] then (Inr (), say (Warning ''Please enter a query.'') st1)
                        else analyze env kb query st1)
                  else (Inr (), st1)))"

text \<open>One execution of the script in which the lookup of line 46 returns the value held in
  \<open>secret_google_api_key\<close>.\<close>

definition run_script :: "env \<Rightarrow> widgets \<Rightarrow> world \<Rightarrow> run_result" where
  "run_script env inp w =
     (case analysis_panel env inp (sidebar env inp (start w)) of
        (r, st) \<Rightarrow>
          \<lparr>after = finish st, shown = page st,
           uncaught = (case r of Inl e \<Rightarrow> Some e | Inr u \<Rightarrow> None)\<rparr>)"

text \<open>A session: the executions of the script one after the other.\<close>

fun run_session :: "env \<Rightarrow> widgets list \<Rightarrow> world \<Rightarrow> world" where
  "run_session env [] w = w"
| "run_session env (inp # inps) w = run_session env inps (after (run_script env inp w))"

text \<open>
  One execution of the script. \<open>secrets_get\<close> is what
  \<^verbatim>\<open>st.secrets.get("GOOGLE_API_KEY", None)\<close> of line 46 does: it raises (\<open>Inl\<close>) when the
  secrets cannot be read, as when there is no secrets file, and returns the entry, or
  \<^verbatim>\<open>None\<close> for a missing entry, otherwise. When it raises, lines 29 to 43 have run and the
  exception ends the execution.
\<close>

definition run_page :: "env \<Rightarrow> string + string option \<Rightarrow> widgets \<Rightarrow> world \<Rightarrow> run_result" where
  "run_page env secrets_get inp w =
     (case secrets_get of
        Inl e \<Rightarrow>
          (let st = say (Header ''Configuration'') (start w)
           in \<lparr>after = finish st, shown = page st, uncaught = Some e\<rparr>)
      | Inr api_key \<Rightarrow> run_script env (inp\<lparr>secret_google_api_key := api_key\<rparr>) w)"

text \<open>The state in which the Analyze handler of line 186 starts, when a knowledge base is in
  the session: the sidebar is done and the panel's header is drawn.\<close>

definition at_analyze :: "env \<Rightarrow> widgets \<Rightarrow> world \<Rightarrow> run_state" where
  "at_analyze env inp w = say (Header ''Select Analysis Type'') (sidebar env inp (start w))"

section \<open>Reading the state and the log\<close>

text \<open>The processed-file names and the knowledge base of a session, as the next execution
  of the script will find them.\<close>

definition processed :: "world \<Rightarrow> string set" where
  "processed w = processed_files (init_session_state (session w))"

definition current_kb :: "world \<Rightarrow> pdf_knowledge_base option" where
  "current_kb w = knowledge_base (init_session_state (session w))"

fun is_agent_run :: "call \<Rightarrow> bool" where
  "is_agent_run (AgentRun a q) = True"
| "is_agent_run c = False"

fun is_ingest_call :: "call \<Rightarrow> bool" where
  "is_ingest_call (AgentRun a q) = False"
| "is_ingest_call c = True"

text \<open>\<open>quiet st st'\<close>: from \<open>st\<close> to \<open>st'\<close> nothing happened but agent runs and drawing.\<close>

definition quiet :: "run_state \<Rightarrow> run_state \<Rightarrow> bool" where
  "quiet st st' \<longleftrightarrow>
     ss st' = ss st \<and> environ st' = environ st \<and> store st' = store st \<and>
     take (length (calls st)) (calls st') = calls st \<and>
     list_all is_agent_run (drop (length (calls st)) (calls st')) \<and>
     take (length (page st)) (page st') = page st"

text \<open>The knowledge base that line 69 constructs from the temporary file's path.\<close>

definition new_kb :: "widgets \<Rightarrow> run_state \<Rightarrow> string \<Rightarrow> pdf_knowledge_base" where
  "new_kb inp st temp_path =
     \<lparr>path = temp_path, kb_vector_db = vector_db (ss st), reader = PDFReader,
      chunking_strategy = \<lparr>chunk_size = chunk_size_in inp, overlap = overlap_in inp\<rparr>\<rparr>"

text \<open>What the agents answer during one Analyze action whose first agent call is library
  call number \<open>n\<close>, when every call returns.\<close>

definition reply :: "env \<Rightarrow> nat \<Rightarrow> agent \<Rightarrow> string \<Rightarrow> run_response" where
  "reply env n a q = projr (agent_run env n a q)"

definition report_prompt :: "env \<Rightarrow> pdf_knowledge_base \<Rightarrow> string \<Rightarrow> nat \<Rightarrow> string" where
  "report_prompt env kb q n =
     team_prompt (reply env n (legal_researcher kb) q)
       (reply env (n + 1) (contract_analyst kb) q)
       (reply env (n + 2) (legal_strategist kb) q)"

definition report :: "env \<Rightarrow> pdf_knowledge_base \<Rightarrow> string \<Rightarrow> nat \<Rightarrow> run_response" where
  "report env kb q n = reply env (n + 3) team_lead (report_prompt env kb q n)"

definition team_calls :: "env \<Rightarrow> pdf_knowledge_base \<Rightarrow> string \<Rightarrow> nat \<Rightarrow> call list" where
  "team_calls env kb q n =
     [AgentRun (legal_researcher kb) q,
      AgentRun (contract_analyst kb) q,
      AgentRun (legal_strategist kb) q,
      AgentRun team_lead (report_prompt env kb q n),
      AgentRun team_lead (summary_prompt (report env kb q n)),
      AgentRun team_lead (recommendations_prompt (report env kb q n))]"

definition team_tabs :: "env \<Rightarrow> pdf_knowledge_base \<Rightarrow> string \<Rightarrow> nat \<Rightarrow> ui list" where
  "team_tabs env kb q n =
     [Tabs [''Analysis'', ''Key Points'', ''Recommendations''],
      Subheader ''Detailed Analysis'',
      Markdown (content_or (report env kb q n) ''No response generated.''),
      Subheader ''Key Points Summary'',
      Markdown (content_or (reply env (n + 4) team_lead (summary_prompt (report env kb q n)))
                  ''No summary generated.''),
      Subheader ''Recommendations'',
      Markdown (content_or
                  (reply env (n + 5) team_lead (recommendations_prompt (report env kb q n)))
                  ''No recommendations generated.'')]"

section \<open>The library's load, and example sessions\<close>

text \<open>
  \<^verbatim>\<open>knowledge_base.load(recreate=True, upsert=True)\<close> is library code. Where a statement
  needs to know what it does to the store, the two flags are read as the library documents
  them: \<open>recreate\<close> drops the collection before loading, a missing collection is created
  empty, and the knowledge base's documents are then written, replacing equal ones when
  \<open>upsert\<close> is set and skipping them otherwise. \<open>documents\<close> reads and chunks the file, and
  may raise. Everything else is stated for every \<open>env\<close>.
\<close>

definition load_by_flags ::
  "(pdf_knowledge_base \<Rightarrow> string + chunk list) \<Rightarrow>
   bool \<Rightarrow> bool \<Rightarrow> pdf_knowledge_base \<Rightarrow> store \<Rightarrow> string option \<times> store" where
  "load_by_flags documents recreate upsert kb s =
     (let c = collection (kb_vector_db kb);
          s1 = (if recreate then s(c := None) else s);
          s2 = (if s1 c = None then s1(c := Some []) else s1);
          old = (case s2 c of None \<Rightarrow> [] | Some ds \<Rightarrow> ds)
      in case documents kb of
           Inl e \<Rightarrow> (Some e, s2)
         | Inr docs \<Rightarrow>
             (None,
              s2(c := Some (if upsert then filter (\<lambda>d. d \<notin> set docs) old @ docs
                            else old @ filter (\<lambda>d. d \<notin> set old) docs))))"

definition new_world :: world where
  "new_world = \<lparr>session = None, os_environ = None, vector_store = (\<lambda>c. None), history = []\<rparr>"

definition lease_pdf :: uploaded_file where
  "lease_pdf = \<lparr>name = ''lease.pdf'', getvalue = ''lease''\<rparr>"

definition nda_pdf :: uploaded_file where
  "nda_pdf = \<lparr>name = ''nda.pdf'', getvalue = ''nda''\<rparr>"

definition lease_kb :: pdf_knowledge_base where
  "lease_kb = new_kb \<lparr>secret_google_api_key = None, chunk_size_in = 1000, overlap_in = 200,
                       uploaded_file = Some lease_pdf, analysis_type = ContractReview,
                       text_area = [], analyze_button = False\<rparr>
                (start new_world) ''/tmp/lease''"

text \<open>Widget values: the secret, the upload, the analysis type, the custom text, the button;
  chunk size and overlap stay at their defaults.\<close>

definition widgets_of ::
  "string option \<Rightarrow> uploaded_file option \<Rightarrow> analysis_type \<Rightarrow> string \<Rightarrow> bool \<Rightarrow> widgets" where
  "widgets_of key f t txt b =
     \<lparr>secret_google_api_key = key, chunk_size_in = 1000, overlap_in = 200,
      uploaded_file = f, analysis_type = t, text_area = txt, analyze_button = b\<rparr>"

text \<open>A library that works, and one whose services all refuse.\<close>

definition working_env :: env where
  "working_env =
     \<lparr>temp_write = (\<lambda>n c. Inr (''/tmp/'' @ c)),
      kb_load = (\<lambda>n. load_by_flags (\<lambda>kb. Inr [(path kb, ''chunk'')])),
      agent_run = (\<lambda>n a q. Inr \<lparr>content = Some ''text'', as_str = ''RunResponse''\<rparr>)\<rparr>"

definition disk_full_env :: env where
  "disk_full_env =
     \<lparr>temp_write = (\<lambda>n c. Inl ''No space left on device''),
      kb_load = (\<lambda>n. load_by_flags (\<lambda>kb. Inr [(path kb, ''chunk'')])),
      agent_run = (\<lambda>n a q. Inr \<lparr>content = Some ''text'', as_str = ''RunResponse''\<rparr>)\<rparr>"

text \<open>A library whose agent service fails once, at library call number 6: in the session
  that has loaded the lease, that is the second run of the team lead.\<close>

definition text_response :: run_response where
  "text_response = \<lparr>content = Some ''text'', as_str = ''RunResponse''\<rparr>"

definition failing_once_env :: env where
  "failing_once_env =
     \<lparr>temp_write = (\<lambda>n c. Inr (''/tmp/'' @ c)),
      kb_load = (\<lambda>n. load_by_flags (\<lambda>kb. Inr [(path kb, ''chunk'')])),
      agent_run = (\<lambda>n a q. if n = 6 then Inl ''timeout'' else Inr text_response)\<rparr>"

definition refusing_env :: env where
  "refusing_env =
     \<lparr>temp_write = (\<lambda>n c. Inr (''/tmp/'' @ c)),
      kb_load = (\<lambda>n recreate upsert kb s. (Some ''embedding failed'', s)),
      agent_run = (\<lambda>n a q. Inl ''no API key'')\<rparr>"

text \<open>A first execution that uploads the lease, the session it leaves, and a second file
  of the same name with other content.\<close>

definition first_upload :: widgets where
  "first_upload = widgets_of (Some ''key'') (Some lease_pdf) ContractReview [] False"

definition lease_loaded :: world where
  "lease_loaded = after (run_script working_env first_upload new_world)"

definition lease_changed :: uploaded_file where
  "lease_changed = \<lparr>name = ''lease.pdf'', getvalue = ''changed''\<rparr>"

text \<open>Widget values that press Analyze on the loaded lease: a predefined type, a custom
  query of a space and a line feed, and an empty custom query. Whitespace is Python's
  \<^verbatim>\<open>string.whitespace\<close>.\<close>

definition analyze_risk :: widgets where
  "analyze_risk = widgets_of (Some ''key'') (Some lease_pdf) RiskAssessment [] True"

definition is_whitespace :: "char \<Rightarrow> bool" where
  "is_whitespace c \<longleftrightarrow> c \<in> set [CHR '' '', CHR 0x09, CHR 0x0A, CHR 0x0B, CHR 0x0C, CHR 0x0D]"

definition blank_query :: widgets where
  "blank_query = widgets_of (Some ''key'') (Some lease_pdf) CustomQuery [CHR '' '', CHR 0x0A] True"

definition empty_query :: widgets where
  "empty_query = widgets_of (Some ''key'') (Some lease_pdf) CustomQuery [] True"

text \<open>Widget values of a page whose secrets hold no API key.\<close>

definition no_key_upload :: widgets where
  "no_key_upload = widgets_of None (Some lease_pdf) ContractReview [] False"

definition no_key_analyze :: widgets where
  "no_key_analyze = widgets_of None (Some lease_pdf) ContractReview [] True"


section \<open>Basic facts\<close>

lemma and_then_Inl: "and_then (Inl e, s) f = (Inl e, s)"
  by (simp add: and_then_def)

lemma and_then_Inr: "and_then (Inr x, s) f = f x s"
  by (simp add: and_then_def)

lemma say_simps:
  "page (say u st) = page st @ [u]" "ss (say u st) = ss st" "calls (say u st) = calls st"
  "store (say u st) = store st" "environ (say u st) = environ st"
  by (simp_all add: say_def)

lemma take_drop_append_iff:
  "(take (length xs) ys = xs \<and> P (drop (length xs) ys)) = (\<exists>zs. ys = xs @ zs \<and> P zs)"
proof
  assume h: "take (length xs) ys = xs \<and> P (drop (length xs) ys)"
  have "ys = take (length xs) ys @ drop (length xs) ys" by simp
  with h show "\<exists>zs. ys = xs @ zs \<and> P zs" by metis
next
  assume "\<exists>zs. ys = xs @ zs \<and> P zs"
  then show "take (length xs) ys = xs \<and> P (drop (length xs) ys)" by auto
qed

lemma quiet_iff:
  "quiet st st' \<longleftrightarrow>
     ss st' = ss st \<and> environ st' = environ st \<and> store st' = store st \<and>
     (\<exists>cs. calls st' = calls st @ cs \<and> list_all is_agent_run cs) \<and>
     (\<exists>us. page st' = page st @ us)"
proof -
  have c: "(take (length (calls st)) (calls st') = calls st \<and>
            list_all is_agent_run (drop (length (calls st)) (calls st'))) =
           (\<exists>cs. calls st' = calls st @ cs \<and> list_all is_agent_run cs)"
    by (rule take_drop_append_iff)
  have p: "(take (length (page st)) (page st') = page st) = (\<exists>us. page st' = page st @ us)"
    using take_drop_append_iff [of "page st" "page st'" "\<lambda>x. True"] by simp
  show ?thesis
    unfolding quiet_def using c p by blast
qed

lemma quiet_refl: "quiet st st"
  by (simp add: quiet_iff)

lemma quiet_trans: "quiet a b \<Longrightarrow> quiet b c \<Longrightarrow> quiet a c"
  by (auto simp: quiet_iff)

lemma quiet_say: "quiet st (say u st)"
  by (simp add: quiet_iff say_simps)

lemma quiet_run_agent: "quiet st (snd (run_agent env a q st))"
  by (simp add: quiet_iff run_agent_def)

lemma quiet_say_after: "quiet a b \<Longrightarrow> quiet a (say u b)"
  by (rule quiet_trans [OF _ quiet_say])

lemma quiet_run_agent_after: "quiet a b \<Longrightarrow> quiet a (snd (run_agent env ag q b))"
  by (rule quiet_trans [OF _ quiet_run_agent])

lemma quiet_and_then:
  assumes "quiet st (snd m)" and "\<And>x s. quiet st s \<Longrightarrow> quiet st (snd (f x s))"
  shows "quiet st (snd (and_then m f))"
  using assms by (cases m) (auto simp: and_then_def split: sum.splits)

lemma quiet_get_team_response: "quiet st (snd (get_team_response env kb q st))"
  unfolding get_team_response_def
  apply (rule quiet_and_then [OF quiet_run_agent])
  apply (rule quiet_and_then)
   apply (erule quiet_run_agent_after)
  apply (rule quiet_and_then)
   apply (erule quiet_run_agent_after)
  apply (erule quiet_run_agent_after)
  done

lemma quiet_analyze: "quiet st (snd (analyze env kb q st))"
  unfolding analyze_def Let_def
  apply (rule quiet_and_then [OF quiet_get_team_response])
  apply (rule quiet_and_then)
   apply (intro quiet_run_agent_after quiet_say_after, assumption)
  apply (rule quiet_and_then)
   apply (intro quiet_run_agent_after quiet_say_after, assumption)
  apply (simp only: snd_conv)
  apply (intro quiet_say_after, assumption)
  done

lemma quiet_analysis_panel: "quiet st (snd (analysis_panel env inp st))"
proof (cases "knowledge_base (ss st)")
  case None
  then show ?thesis by (simp add: analysis_panel_def quiet_refl)
next
  case (Some kb)
  show ?thesis
  proof (cases "select_query inp")
    case (Inl e)
    with Some show ?thesis by (simp add: analysis_panel_def quiet_say)
  next
    case (Inr query)
    with Some show ?thesis
      by (simp add: analysis_panel_def Let_def quiet_say quiet_say_after
            quiet_trans [OF quiet_say quiet_analyze])
  qed
qed

lemma load_api_key_simps:
  "ss (load_api_key inp st) = ss st" "store (load_api_key inp st) = store st"
  "calls (load_api_key inp st) = calls st"
  "environ (load_api_key inp st) =
     (if truthy (secret_google_api_key inp) then secret_google_api_key inp else environ st)"
  "page (load_api_key inp st) = page st @
     [if truthy (secret_google_api_key inp) then Success ''API key loaded from secrets!''
      else Error ''Missing Google API Key in Streamlit secrets!'']"
  by (simp_all add: load_api_key_def truthy_def say_def split: option.splits)

lemma sidebar_config_simps:
  "ss (sidebar_config inp st) = ss st" "store (sidebar_config inp st) = store st"
  "calls (sidebar_config inp st) = calls st"
  "environ (sidebar_config inp st) =
     (if truthy (secret_google_api_key inp) then secret_google_api_key inp else environ st)"
  "page (sidebar_config inp st) = page st @
     [Header ''Configuration'',
      if truthy (secret_google_api_key inp) then Success ''API key loaded from secrets!''
      else Error ''Missing Google API Key in Streamlit secrets!'',
      Header ''Document Upload'']"
  by (simp_all add: sidebar_config_def load_api_key_simps say_simps)

lemma ingest_body_temp_raises:
  "temp_write env (length (calls st)) (getvalue f) = Inl e \<Longrightarrow>
   ingest_body env inp f st = (Inl e, st\<lparr>calls := calls st @ [TempWrite (getvalue f)]\<rparr>)"
  by (simp add: ingest_body_def)

lemma ingest_body_load_raises:
  "temp_write env (length (calls st)) (getvalue f) = Inr p \<Longrightarrow>
   kb_load env (Suc (length (calls st))) True True (new_kb inp st p) (store st) = (Some e, s') \<Longrightarrow>
   ingest_body env inp f st =
     (Inl e, st\<lparr>ss := (ss st)\<lparr>knowledge_base := Some (new_kb inp st p)\<rparr>,
                calls := calls st @ [TempWrite (getvalue f), KbLoad True True (new_kb inp st p)],
                store := s'\<rparr>)"
  by (simp add: ingest_body_def new_kb_def Let_def)

lemma ingest_body_returns:
  "temp_write env (length (calls st)) (getvalue f) = Inr p \<Longrightarrow>
   kb_load env (Suc (length (calls st))) True True (new_kb inp st p) (store st) = (None, s') \<Longrightarrow>
   ingest_body env inp f st =
     (Inr (), st\<lparr>ss := (ss st)\<lparr>knowledge_base := Some (new_kb inp st p),
                              processed_files := insert (name f) (processed_files (ss st))\<rparr>,
                calls := calls st @ [TempWrite (getvalue f), KbLoad True True (new_kb inp st p)],
                store := s',
                page := page st @ [Success ''Document processed and stored in knowledge base!'']\<rparr>)"
  by (simp add: ingest_body_def new_kb_def say_def Let_def)

lemma ingest_body_cases:
  obtains (temp) e where "temp_write env (length (calls st)) (getvalue f) = Inl e"
  | (load) p e s' where "temp_write env (length (calls st)) (getvalue f) = Inr p"
      "kb_load env (Suc (length (calls st))) True True (new_kb inp st p) (store st) = (Some e, s')"
  | (ok) p s' where "temp_write env (length (calls st)) (getvalue f) = Inr p"
      "kb_load env (Suc (length (calls st))) True True (new_kb inp st p) (store st) = (None, s')"
proof (cases "temp_write env (length (calls st)) (getvalue f)")
  case (Inl e)
  then show ?thesis by (rule temp)
next
  case (Inr p)
  show ?thesis
  proof (cases "kb_load env (Suc (length (calls st))) True True (new_kb inp st p) (store st)")
    case (Pair r s')
    with Inr show ?thesis by (cases r) (auto intro: load ok)
  qed
qed

lemma run_agent_returns:
  "\<not> isl (agent_run env (length (calls st)) a q) \<Longrightarrow>
   run_agent env a q st =
     (Inr (reply env (length (calls st)) a q), st\<lparr>calls := calls st @ [AgentRun a q]\<rparr>)"
  by (cases "agent_run env (length (calls st)) a q") (simp_all add: run_agent_def reply_def)

lemma get_team_response_returns:
  assumes "\<forall>n a q. \<not> isl (agent_run env n a q)"
  shows "get_team_response env kb q st =
     (Inr (report env kb q (length (calls st))),
      st\<lparr>calls := calls st @ take 4 (team_calls env kb q (length (calls st)))\<rparr>)"
  using assms
  by (simp add: get_team_response_def run_agent_returns and_then_Inr team_calls_def
        report_def report_prompt_def eval_nat_numeral)

lemma analyze_returns:
  assumes "\<forall>n a q. \<not> isl (agent_run env n a q)"
  shows "analyze env kb q st =
     (Inr (),
      st\<lparr>calls := calls st @ team_calls env kb q (length (calls st)),
         page := page st @ team_tabs env kb q (length (calls st))\<rparr>)"
  using assms
  by (simp add: analyze_def get_team_response_returns run_agent_returns and_then_Inr
        team_calls_def team_tabs_def say_def Let_def eval_nat_numeral)

lemma sidebar_no_upload:
  "uploaded_file inp = None \<Longrightarrow> sidebar env inp st = sidebar_config inp st"
  by (simp add: sidebar_def)

lemma sidebar_processed:
  "uploaded_file inp = Some f \<Longrightarrow> name f \<in> processed_files (ss st) \<Longrightarrow>
   sidebar env inp st = sidebar_config inp st"
  by (simp add: sidebar_def sidebar_config_simps)

lemma sidebar_ingest:
  "uploaded_file inp = Some f \<Longrightarrow> name f \<notin> processed_files (ss st) \<Longrightarrow>
   sidebar env inp st = ingest env inp f (sidebar_config inp st)"
  by (simp add: sidebar_def sidebar_config_simps)


lemma ingest_environ: "environ (ingest env inp f st) = environ st"
  by (cases rule: ingest_body_cases [where env=env and st=st and f=f and inp=inp])
     (simp_all add: ingest_def ingest_body_temp_raises ingest_body_load_raises
        ingest_body_returns say_def)

lemma ingest_processed_mono:
  "processed_files (ss st) \<subseteq> processed_files (ss (ingest env inp f st))"
  by (cases rule: ingest_body_cases [where env=env and st=st and f=f and inp=inp])
     (auto simp add: ingest_def ingest_body_temp_raises ingest_body_load_raises
        ingest_body_returns say_def)

lemma ingest_calls:
  "\<exists>cs. calls (ingest env inp f st) = calls st @ TempWrite (getvalue f) # cs \<and>
        list_all is_ingest_call cs"
  by (cases rule: ingest_body_cases [where env=env and st=st and f=f and inp=inp])
     (simp_all add: ingest_def ingest_body_temp_raises ingest_body_load_raises
        ingest_body_returns say_def)

lemma ingest_page: "\<exists>us. page (ingest env inp f st) = page st @ us"
  by (cases rule: ingest_body_cases [where env=env and st=st and f=f and inp=inp])
     (simp_all add: ingest_def ingest_body_temp_raises ingest_body_load_raises
        ingest_body_returns say_def)

lemma sidebar_cases:
  obtains (skip) "sidebar env inp st = sidebar_config inp st"
  | (ingest) f where "uploaded_file inp = Some f" "name f \<notin> processed_files (ss st)"
      "sidebar env inp st = ingest env inp f (sidebar_config inp st)"
proof (cases "uploaded_file inp")
  case None
  then show ?thesis by (intro skip sidebar_no_upload)
next
  case (Some f)
  show ?thesis
  proof (cases "name f \<in> processed_files (ss st)")
    case True
    with Some show ?thesis by (intro skip sidebar_processed)
  next
    case False
    with Some show ?thesis by (intro ingest [of f] sidebar_ingest)
  qed
qed


lemma sidebar_processed_mono:
  "processed_files (ss st) \<subseteq> processed_files (ss (sidebar env inp st))"
proof (cases rule: sidebar_cases [of env inp st])
  case skip
  then show ?thesis by (simp add: sidebar_config_simps)
next
  case (ingest f)
  then show ?thesis
    using ingest_processed_mono [of "sidebar_config inp st" env inp f]
    by (simp add: sidebar_config_simps)
qed

lemma sidebar_calls:
  "\<exists>cs. calls (sidebar env inp st) = calls st @ cs \<and> list_all is_ingest_call cs"
proof (cases rule: sidebar_cases [of env inp st])
  case skip
  then show ?thesis by (simp add: sidebar_config_simps)
next
  case (ingest f)
  then show ?thesis
    using ingest_calls [of env inp f "sidebar_config inp st"]
    by (auto simp add: sidebar_config_simps)
qed

lemma sidebar_environ:
  "environ (sidebar env inp st) =
     (if truthy (secret_google_api_key inp) then secret_google_api_key inp else environ st)"
  by (cases rule: sidebar_cases [of env inp st])
     (simp_all add: ingest_environ sidebar_config_simps)

lemma sidebar_page:
  "\<exists>us. page (sidebar env inp st) = page (sidebar_config inp st) @ us"
proof (cases rule: sidebar_cases [of env inp st])
  case skip
  then show ?thesis by simp
next
  case (ingest f)
  then show ?thesis
    using ingest_page [of env inp f "sidebar_config inp st"] by simp
qed

text \<open>One execution: the sidebar, then the panel, which only runs agents and draws.\<close>

lemma run_script_panel:
  obtains r st2 where
    "analysis_panel env inp (sidebar env inp (start w)) = (r, st2)"
    "quiet (sidebar env inp (start w)) st2"
    "after (run_script env inp w) = finish st2"
    "shown (run_script env inp w) = page st2"
    "uncaught (run_script env inp w) = (case r of Inl e \<Rightarrow> Some e | Inr u \<Rightarrow> None)"
proof -
  obtain r st2 where p: "analysis_panel env inp (sidebar env inp (start w)) = (r, st2)"
    by (cases "analysis_panel env inp (sidebar env inp (start w))")
  have q: "quiet (sidebar env inp (start w)) st2"
    using quiet_analysis_panel [of "sidebar env inp (start w)" env inp] p by simp
  show thesis
    by (rule that [OF p q]) (simp_all add: run_script_def p)
qed

lemma run_script_session:
  "session (after (run_script env inp w)) = Some (ss (sidebar env inp (start w)))"
  by (rule run_script_panel [of env inp w]) (simp add: finish_def quiet_iff)

lemma run_script_processed:
  "processed (after (run_script env inp w)) = processed_files (ss (sidebar env inp (start w)))"
  by (simp add: processed_def run_script_session init_session_state_def)

lemma run_script_current_kb:
  "current_kb (after (run_script env inp w)) = knowledge_base (ss (sidebar env inp (start w)))"
  by (simp add: current_kb_def run_script_session init_session_state_def)

lemma run_script_vector_store:
  "vector_store (after (run_script env inp w)) = store (sidebar env inp (start w))"
  by (rule run_script_panel [of env inp w]) (simp add: finish_def quiet_iff)

lemma run_script_os_environ:
  "os_environ (after (run_script env inp w)) = environ (sidebar env inp (start w))"
  by (rule run_script_panel [of env inp w]) (simp add: finish_def quiet_iff)

lemma run_script_history:
  "\<exists>cs. history (after (run_script env inp w)) = calls (sidebar env inp (start w)) @ cs \<and>
        list_all is_agent_run cs"
  by (rule run_script_panel [of env inp w]) (simp add: finish_def quiet_iff)

lemma run_script_shown:
  "\<exists>us. shown (run_script env inp w) = page (sidebar env inp (start w)) @ us"
  by (rule run_script_panel [of env inp w]) (simp add: finish_def quiet_iff)

lemma start_simps:
  "ss (start w) = init_session_state (session w)" "environ (start w) = os_environ w"
  "store (start w) = vector_store w" "calls (start w) = history w" "page (start w) = []"
  by (simp_all add: start_def)


lemma read_start:
  "processed_files (ss (start w)) = processed w" "knowledge_base (ss (start w)) = current_kb w"
  by (simp_all add: processed_def current_kb_def start_def)

lemma ingest_raised:
  assumes "fst (ingest_body env inp f st) = Inl e"
  shows "page (ingest env inp f st) = page st @ [Error (''Error processing document: '' @ e)]"
    and "processed_files (ss (ingest env inp f st)) = processed_files (ss st)"
    and "isl (temp_write env (length (calls st)) (getvalue f)) \<Longrightarrow>
           ss (ingest env inp f st) = ss st \<and> store (ingest env inp f st) = store st"
  using assms
  by (cases rule: ingest_body_cases [where env=env and st=st and f=f and inp=inp];
      simp add: ingest_def ingest_body_temp_raises ingest_body_load_raises
        ingest_body_returns say_def)+

lemma run_script_processed_mono: "processed w \<subseteq> processed (after (run_script env inp w))"
  using sidebar_processed_mono [of "start w" env inp]
  by (simp add: run_script_processed read_start)

lemma run_session_processed_mono: "processed w \<subseteq> processed (run_session env inps w)"
proof (induction inps arbitrary: w)
  case Nil
  show ?case by simp
next
  case (Cons inp inps)
  have "processed w \<subseteq> processed (after (run_script env inp w))"
    by (rule run_script_processed_mono)
  also have "\<dots> \<subseteq> processed (run_session env inps (after (run_script env inp w)))"
    by (rule Cons.IH)
  finally show ?case by simp
qed

lemma agent_runs_not_ingest:
  "list_all is_agent_run cs \<Longrightarrow> filter is_ingest_call cs = []"
proof (induction cs)
  case Nil
  show ?case by simp
next
  case (Cons c cs)
  then show ?case by (cases c) simp_all
qed

lemma ingest_calls_not_agent:
  "list_all is_ingest_call cs \<Longrightarrow> filter is_agent_run cs = []"
proof (induction cs)
  case Nil
  show ?case by simp
next
  case (Cons c cs)
  then show ?case by (cases c) simp_all
qed

lemma run_script_skips:
  assumes "uploaded_file inp = Some f" and "name f \<in> processed w"
  shows "session (after (run_script env inp w)) = Some (init_session_state (session w))"
    and "vector_store (after (run_script env inp w)) = vector_store w"
    and "filter is_ingest_call (history (after (run_script env inp w))) =
         filter is_ingest_call (history w)"
proof -
  have sb: "sidebar env inp (start w) = sidebar_config inp (start w)"
    using assms by (intro sidebar_processed) (simp_all add: read_start)
  show "session (after (run_script env inp w)) = Some (init_session_state (session w))"
    by (simp add: run_script_session sb sidebar_config_simps start_simps)
  show "vector_store (after (run_script env inp w)) = vector_store w"
    by (simp add: run_script_vector_store sb sidebar_config_simps start_simps)
  obtain cs where "history (after (run_script env inp w)) = calls (sidebar env inp (start w)) @ cs"
    and "list_all is_agent_run cs"
    using run_script_history by blast
  then show "filter is_ingest_call (history (after (run_script env inp w))) =
         filter is_ingest_call (history w)"
    by (simp add: sb sidebar_config_simps start_simps agent_runs_not_ingest)
qed

lemma new_kb_sidebar_config: "new_kb inp (sidebar_config inp' st) p = new_kb inp st p"
  by (simp add: new_kb_def sidebar_config_simps)

text \<open>Unfolding the script, and the examples, for evaluation at concrete inputs.\<close>

lemmas script_defs =
  run_script_def analysis_panel_def select_query_def sidebar_def sidebar_config_def
  load_api_key_def ingest_def ingest_body_def say_def start_def finish_def
  init_session_state_def analyze_def get_team_response_def run_agent_def and_then_def
  Let_def

lemmas example_defs =
  widgets_of_def lease_pdf_def nda_pdf_def new_world_def lease_kb_def new_kb_def
  working_env_def refusing_env_def disk_full_env_def load_by_flags_def

lemma lease_loaded_eq:
  "lease_loaded =
     \<lparr>session = Some \<lparr>vector_db = kb_vector_db lease_kb, knowledge_base = Some lease_kb,
                       processed_files = {''lease.pdf''}\<rparr>,
      os_environ = Some ''key'',
      vector_store = (\<lambda>c. None)(''law'' := Some [(''/tmp/lease'', ''chunk'')]),
      history = [TempWrite ''lease'', KbLoad True True lease_kb]\<rparr>"
  by (simp add: lease_loaded_def first_upload_def script_defs example_defs)

lemma analysis_panel_analyze:
  "knowledge_base (ss st) = Some kb \<Longrightarrow> select_query inp = Inr q \<Longrightarrow> analyze_button inp \<Longrightarrow>
   q \<noteq> [] \<Longrightarrow>
   analysis_panel env inp st = analyze env kb q (say (Header ''Select Analysis Type'') st)"
  by (simp add: analysis_panel_def)

lemma analysis_panel_warning:
  "knowledge_base (ss st) = Some kb \<Longrightarrow> select_query inp = Inr [] \<Longrightarrow> analyze_button inp \<Longrightarrow>
   analysis_panel env inp st =
     (Inr (), say (Warning ''Please enter a query.'') (say (Header ''Select Analysis Type'') st))"
  by (simp add: analysis_panel_def)

lemma run_script_analyze:
  assumes "current_kb (after (run_script env inp w)) = Some kb"
    and "select_query inp = Inr q" and "analyze_button inp" and "q \<noteq> []"
  shows "run_script env inp w =
     (case analyze env kb q (say (Header ''Select Analysis Type'') (sidebar env inp (start w))) of
        (r, st) \<Rightarrow> \<lparr>after = finish st, shown = page st,
                     uncaught = (case r of Inl e \<Rightarrow> Some e | Inr u \<Rightarrow> None)\<rparr>)"
proof -
  have "knowledge_base (ss (sidebar env inp (start w))) = Some kb"
    using assms(1) by (simp add: run_script_current_kb)
  then show ?thesis
    using assms(2-4) by (simp add: run_script_def analysis_panel_analyze)
qed

lemma run_script_analyze_returns:
  assumes "current_kb (after (run_script env inp w)) = Some kb"
    and "select_query inp = Inr q" and "analyze_button inp" and "q \<noteq> []"
    and "\<forall>n a q. \<not> isl (agent_run env n a q)"
  shows "history (after (run_script env inp w)) =
           calls (sidebar env inp (start w)) @
           team_calls env kb q (length (calls (sidebar env inp (start w))))"
    and "shown (run_script env inp w) =
           page (sidebar env inp (start w)) @ Header ''Select Analysis Type'' #
           team_tabs env kb q (length (calls (sidebar env inp (start w))))"
    and "uncaught (run_script env inp w) = None"
  by (simp_all add: run_script_analyze [OF assms(1-4)] analyze_returns [OF assms(5)]
        finish_def say_def)

lemma sidebar_agent_calls:
  "filter is_agent_run (calls (sidebar env inp (start w))) = filter is_agent_run (history w)"
proof -
  obtain cs where "calls (sidebar env inp (start w)) = calls (start w) @ cs"
    and "list_all is_ingest_call cs"
    using sidebar_calls by blast
  then show ?thesis by (simp add: start_simps ingest_calls_not_agent)
qed


lemma agent_run_reply:
  "\<not> isl (agent_run env n a q) \<Longrightarrow> agent_run env n a q = Inr (reply env n a q)"
  by (cases "agent_run env n a q") (simp_all add: reply_def)

lemma select_query_predefined:
  "analysis_type inp \<noteq> CustomQuery \<Longrightarrow> \<exists>q. select_query inp = Inr q \<and> q \<noteq> []"
  by (cases "analysis_type inp") (simp_all add: select_query_def)

lemma select_query_custom:
  "analysis_type inp = CustomQuery \<Longrightarrow> select_query inp = Inr (text_area inp)"
  by (simp add: select_query_def)

lemma ingest_page_no_warning:
  "Warning x \<notin> set (page st) \<Longrightarrow> Warning x \<notin> set (page (ingest env inp f st))"
  by (cases rule: ingest_body_cases [where env=env and st=st and f=f and inp=inp])
     (simp_all add: ingest_def ingest_body_temp_raises ingest_body_load_raises
        ingest_body_returns say_def)

lemma sidebar_page_no_warning: "Warning x \<notin> set (page (sidebar env inp (start w)))"
proof -
  have c: "Warning x \<notin> set (page (sidebar_config inp (start w)))"
    by (simp add: sidebar_config_simps start_simps)
  show ?thesis
  proof (cases rule: sidebar_cases [of env inp "start w"])
    case skip
    with c show ?thesis by simp
  next
    case (ingest f)
    with c show ?thesis by (simp add: ingest_page_no_warning)
  qed
qed

lemma first_call_and_then:
  assumes "\<exists>cs. calls (snd m) = calls st @ c # cs"
    and "\<And>x s. quiet s (snd (f x s))"
  shows "\<exists>cs. calls (snd (and_then m f)) = calls st @ c # cs"
proof (cases m)
  case (Pair r s)
  show ?thesis
  proof (cases r)
    case (Inl e)
    with Pair assms(1) show ?thesis by (simp add: and_then_def)
  next
    case (Inr x)
    from assms(1) Pair obtain cs where c: "calls s = calls st @ c # cs" by auto
    from assms(2) [of s x] obtain ds where "calls (snd (f x s)) = calls s @ ds"
      by (auto simp: quiet_iff)
    with c Pair Inr show ?thesis by (simp add: and_then_def)
  qed
qed

lemma get_team_response_first_call:
  "\<exists>cs. calls (snd (get_team_response env kb q st)) =
        calls st @ AgentRun (legal_researcher kb) q # cs"
  unfolding get_team_response_def
  apply (rule first_call_and_then)
   apply (simp add: run_agent_def)
  apply (rule quiet_and_then [OF quiet_run_agent])
  apply (rule quiet_and_then)
   apply (erule quiet_run_agent_after)
  apply (erule quiet_run_agent_after)
  done

lemma analyze_first_call:
  "\<exists>cs. calls (snd (analyze env kb q st)) = calls st @ AgentRun (legal_researcher kb) q # cs"
  unfolding analyze_def Let_def
  apply (rule first_call_and_then [OF get_team_response_first_call])
  apply (rule quiet_and_then)
   apply (intro quiet_run_agent_after quiet_say_after quiet_refl)
  apply (rule quiet_and_then)
   apply (intro quiet_run_agent_after quiet_say_after, assumption)
  apply (simp only: snd_conv)
  apply (intro quiet_say_after, assumption)
  done






lemma get_team_response_returned:
  assumes "get_team_response env kb q st = (Inr rep, st1)"
  shows "\<exists>pre p. calls st1 = pre @ [AgentRun team_lead p] \<and>
                 agent_run env (length pre) team_lead p = Inr rep"
proof -
  have "calls st1 =
          (calls st @ [AgentRun (legal_researcher kb) q, AgentRun (contract_analyst kb) q,
                       AgentRun (legal_strategist kb) q]) @
          [AgentRun team_lead (report_prompt env kb q (length (calls st)))] \<and>
        agent_run env
          (length (calls st @ [AgentRun (legal_researcher kb) q, AgentRun (contract_analyst kb) q,
                               AgentRun (legal_strategist kb) q]))
          team_lead (report_prompt env kb q (length (calls st))) = Inr rep"
    using assms
    by (auto simp add: get_team_response_def run_agent_def and_then_def report_prompt_def
          reply_def eval_nat_numeral split: sum.split_asm)
  then show ?thesis by blast
qed

lemma analyze_after_report:
  assumes "get_team_response env kb q st = (Inr rep, st1)"
  shows "calls (snd (analyze env kb q st)) =
           calls st1 @ AgentRun team_lead (summary_prompt rep) #
           (if isl (agent_run env (length (calls st1)) team_lead (summary_prompt rep)) then []
            else [AgentRun team_lead (recommendations_prompt rep)])"
proof (cases "agent_run env (length (calls st1)) team_lead (summary_prompt rep)")
  case (Inl e)
  then show ?thesis
    by (simp add: analyze_def assms and_then_def run_agent_def say_def Let_def)
next
  case (Inr summary)
  then show ?thesis
    by (simp add: analyze_def assms and_then_def run_agent_def say_def Let_def
          split: sum.splits)
qed

lemma run_script_starts_ingestion:
  assumes "uploaded_file inp = Some f" and "name f \<notin> processed w"
  shows "\<exists>cs. history (after (run_script env inp w)) = history w @ TempWrite (getvalue f) # cs"
proof -
  have "name f \<notin> processed_files (ss (start w))"
    using assms(2) by (simp add: read_start)
  then have sb: "sidebar env inp (start w) = ingest env inp f (sidebar_config inp (start w))"
    by (rule sidebar_ingest [OF assms(1)])
  obtain cs where c: "calls (ingest env inp f (sidebar_config inp (start w))) =
      calls (sidebar_config inp (start w)) @ TempWrite (getvalue f) # cs"
    using ingest_calls by blast
  obtain ds where "history (after (run_script env inp w)) =
      calls (sidebar env inp (start w)) @ ds"
    using run_script_history by blast
  then show ?thesis
    by (simp add: sb c sidebar_config_simps start_simps)
qed

lemma run_script_without_key:
  assumes "\<not> truthy (secret_google_api_key inp)"
  shows "Error ''Missing Google API Key in Streamlit secrets!''
           \<in> set (shown (run_script env inp w))"
    and "os_environ (after (run_script env inp w)) = os_environ w"
proof -
  let ?sb = "sidebar env inp (start w)"
  obtain us where "page ?sb = page (sidebar_config inp (start w)) @ us"
    using sidebar_page by blast
  moreover obtain vs where "shown (run_script env inp w) = page ?sb @ vs"
    using run_script_shown by blast
  ultimately show "Error ''Missing Google API Key in Streamlit secrets!''
           \<in> set (shown (run_script env inp w))"
    using assms by (simp add: sidebar_config_simps)
  show "os_environ (after (run_script env inp w)) = os_environ w"
    using assms by (simp add: run_script_os_environ sidebar_environ start_simps)
qed

lemma run_script_first_agent_call:
  assumes k: "current_kb (after (run_script env inp w)) = Some kb" and b: "analyze_button inp"
    and s: "select_query inp = Inr q" and n: "q \<noteq> []"
  shows "\<exists>pre cs. history (after (run_script env inp w)) =
                    pre @ AgentRun (legal_researcher kb) q # cs \<and>
                  filter is_agent_run pre = filter is_agent_run (history w)"
proof -
  let ?sb = "sidebar env inp (start w)"
  obtain cs where "calls (snd (analyze env kb q (say (Header ''Select Analysis Type'') ?sb))) =
      calls (say (Header ''Select Analysis Type'') ?sb) @ AgentRun (legal_researcher kb) q # cs"
    using analyze_first_call by blast
  then have "history (after (run_script env inp w)) =
      calls ?sb @ AgentRun (legal_researcher kb) q # cs"
    using run_script_analyze [OF k s b n]
    by (simp add: finish_def say_simps split: prod.splits)
  with sidebar_agent_calls [of env inp w] show ?thesis by blast
qed

section \<open>The worker agents\<close>



section \<open>Ingestion\<close>

text \<open>
  C1 (amended). For every upload on which ingestion fails, the exception is caught and
  shown as an error message, and the set of processed file names is as before. When the
  failure is in writing the temporary file, the knowledge-base handle and the vector store
  are as before as well.
\<close>

theorem C1_failed_ingestion_reported:
  assumes "uploaded_file inp = Some f" and "name f \<notin> processed w"
    and "fst (ingest_body env inp f (sidebar_config inp (start w))) = Inl e"
  shows "Error (''Error processing document: '' @ e) \<in> set (shown (run_script env inp w)) \<and>
         processed (after (run_script env inp w)) = processed w \<and>
         (isl (temp_write env (length (history w)) (getvalue f)) \<longrightarrow>
            current_kb (after (run_script env inp w)) = current_kb w \<and>
            vector_store (after (run_script env inp w)) = vector_store w)"
proof -
  let ?st = "sidebar_config inp (start w)"
  have new: "name f \<notin> processed_files (ss (start w))"
    using assms(2) by (simp add: read_start)
  have sb: "sidebar env inp (start w) = ingest env inp f ?st"
    using assms(1) new by (rule sidebar_ingest)
  have pg: "page (ingest env inp f ?st) = page ?st @ [Error (''Error processing document: '' @ e)]"
    using assms(3) by (rule ingest_raised(1))
  obtain us where "shown (run_script env inp w) = page (sidebar env inp (start w)) @ us"
    using run_script_shown by blast
  then have a: "Error (''Error processing document: '' @ e) \<in> set (shown (run_script env inp w))"
    by (simp add: sb pg)
  have b: "processed (after (run_script env inp w)) = processed w"
    using ingest_raised(2) [OF assms(3)]
    by (simp add: run_script_processed sb sidebar_config_simps read_start)
  have c: "current_kb (after (run_script env inp w)) = current_kb w \<and>
           vector_store (after (run_script env inp w)) = vector_store w"
    if "isl (temp_write env (length (history w)) (getvalue f))"
    using ingest_raised(3) [OF assms(3)] that
    by (simp add: run_script_current_kb run_script_vector_store sb sidebar_config_simps
          start_simps(3,4) read_start)
  from a b c show ?thesis by blast
qed

text \<open>The disk is full: the temporary file cannot be written.\<close>

theorem C1_failed_ingestion_reported_witness:
  "uploaded_file (widgets_of (Some ''key'') (Some lease_pdf) ContractReview [] False)
     = Some lease_pdf \<and>
   name lease_pdf \<notin> processed new_world \<and>
   fst (ingest_body disk_full_env
          (widgets_of (Some ''key'') (Some lease_pdf) ContractReview [] False) lease_pdf
          (sidebar_config (widgets_of (Some ''key'') (Some lease_pdf) ContractReview [] False)
             (start new_world))) = Inl ''No space left on device'' \<and>
   isl (temp_write disk_full_env (length (history new_world)) (getvalue lease_pdf)) \<and>
   Error ''Error processing document: No space left on device''
     \<in> set (shown (run_script disk_full_env
                     (widgets_of (Some ''key'') (Some lease_pdf) ContractReview [] False)
                     new_world)) \<and>
   processed (after (run_script disk_full_env
                (widgets_of (Some ''key'') (Some lease_pdf) ContractReview [] False)
                new_world)) = {} \<and>
   current_kb (after (run_script disk_full_env
                (widgets_of (Some ''key'') (Some lease_pdf) ContractReview [] False)
                new_world)) = None"
  using C1_failed_ingestion_reported
    [of "widgets_of (Some ''key'') (Some lease_pdf) ContractReview [] False" lease_pdf
        new_world disk_full_env "''No space left on device''"]
  by (simp add: widgets_of_def lease_pdf_def new_world_def disk_full_env_def processed_def
        current_kb_def init_session_state_def ingest_body_def sidebar_config_def start_def
        load_api_key_def say_def)

text \<open>
  C1 as stated fails: in a new session whose load raises, the error is shown, but the
  session no longer is without a knowledge base; it holds the handle of the knowledge base
  whose load failed, and the analysis panel is drawn.
\<close>

theorem C1_counterexample:
  "current_kb new_world = None \<and>
   fst (ingest_body refusing_env
          (widgets_of (Some ''key'') (Some lease_pdf) ContractReview [] False) lease_pdf
          (sidebar_config (widgets_of (Some ''key'') (Some lease_pdf) ContractReview [] False)
             (start new_world))) = Inl ''embedding failed'' \<and>
   current_kb (after (run_script refusing_env
                (widgets_of (Some ''key'') (Some lease_pdf) ContractReview [] False)
                new_world)) = Some lease_kb \<and>
   shown (run_script refusing_env
            (widgets_of (Some ''key'') (Some lease_pdf) ContractReview [] False) new_world) =
     [Header ''Configuration'', Success ''API key loaded from secrets!'',
      Header ''Document Upload'', Error ''Error processing document: embedding failed'',
      Header ''Select Analysis Type'']"
  by (simp add: widgets_of_def lease_pdf_def new_world_def refusing_env_def lease_kb_def
        new_kb_def current_kb_def init_session_state_def ingest_body_def ingest_def
        sidebar_config_def sidebar_def start_def finish_def load_api_key_def say_def
        run_script_def analysis_panel_def select_query_def Let_def)


text \<open>
  C6. Once a file name is recorded as processed, then after any further executions of the
  script in the session, an upload of a file of that name, whatever its content, is not
  ingested again: the name stays recorded, the processed names, the knowledge-base handle
  and the vector store are as before the execution, and the execution makes no call that
  writes a temporary file or loads a knowledge base.
\<close>

theorem C6_processed_name_not_reingested:
  assumes "name f \<in> processed w"
    and "w' = run_session env inps w"
    and "uploaded_file inp = Some f'" and "name f' = name f"
  shows "name f \<in> processed w' \<and>
         processed (after (run_script env inp w')) = processed w' \<and>
         current_kb (after (run_script env inp w')) = current_kb w' \<and>
         vector_store (after (run_script env inp w')) = vector_store w' \<and>
         filter is_ingest_call (history (after (run_script env inp w'))) =
           filter is_ingest_call (history w')"
proof -
  have p: "name f' \<in> processed w'"
    using assms(1,2,4) run_session_processed_mono [of w env inps] by auto
  note skip = run_script_skips [OF assms(3) p, of env]
  show ?thesis
    using p assms(4) skip(2,3)
    by (simp add: processed_def current_kb_def skip(1) init_session_state_def)
qed


text \<open>The lease is loaded, an analysis is run, and a changed file of the same name is
  uploaded.\<close>

theorem C6_processed_name_not_reingested_witness:
  "name lease_pdf \<in> processed lease_loaded \<and>
   uploaded_file (widgets_of (Some ''key'') (Some lease_changed) RiskAssessment [] True)
     = Some lease_changed \<and>
   name lease_changed = name lease_pdf \<and>
   getvalue lease_changed \<noteq> getvalue lease_pdf \<and>
   vector_store (after (run_script working_env
       (widgets_of (Some ''key'') (Some lease_changed) RiskAssessment [] True)
       (run_session working_env [first_upload] lease_loaded))) =
     vector_store (run_session working_env [first_upload] lease_loaded) \<and>
   filter is_ingest_call (history (after (run_script working_env
       (widgets_of (Some ''key'') (Some lease_changed) RiskAssessment [] True)
       (run_session working_env [first_upload] lease_loaded)))) =
     [TempWrite ''lease'', KbLoad True True lease_kb]"
  using C6_processed_name_not_reingested
    [of lease_pdf lease_loaded "run_session working_env [first_upload] lease_loaded"
        working_env "[first_upload]"
        "widgets_of (Some ''key'') (Some lease_changed) RiskAssessment [] True" lease_changed]
  by (simp add: lease_loaded_eq processed_def init_session_state_def lease_changed_def
        first_upload_def script_defs example_defs)

text \<open>
  C9. A file name is added to the processed names only when the load of the knowledge base
  has returned without raising; when ingestion raises, the name is not recorded, and the
  next execution with an upload of that name starts ingestion again, with the write of the
  temporary file.
\<close>

theorem C9_processed_only_after_load:
  assumes "uploaded_file inp = Some f" and "name f \<notin> processed w"
  shows "(name f \<in> processed (after (run_script env inp w)) \<longrightarrow>
            (\<exists>p s'. temp_write env (length (history w)) (getvalue f) = Inr p \<and>
                    kb_load env (Suc (length (history w))) True True
                      (new_kb inp (start w) p) (vector_store w) = (None, s'))) \<and>
         (\<forall>e. fst (ingest_body env inp f (sidebar_config inp (start w))) = Inl e \<longrightarrow>
            name f \<notin> processed (after (run_script env inp w)) \<and>
            (\<forall>inp' f'. uploaded_file inp' = Some f' \<and> name f' = name f \<longrightarrow>
               (\<exists>cs. history (after (run_script env inp' (after (run_script env inp w)))) =
                     history (after (run_script env inp w)) @ TempWrite (getvalue f') # cs)))"
proof -
  let ?st = "sidebar_config inp (start w)"
  let ?w1 = "after (run_script env inp w)"
  have new: "name f \<notin> processed_files (ss (start w))"
    using assms(2) by (simp add: read_start)
  have sb: "sidebar env inp (start w) = ingest env inp f ?st"
    using assms(1) new by (rule sidebar_ingest)
  have p1: "processed ?w1 = processed_files (ss (ingest env inp f ?st))"
    by (simp add: run_script_processed sb)
  have a: "\<exists>p s'. temp_write env (length (history w)) (getvalue f) = Inr p \<and>
                    kb_load env (Suc (length (history w))) True True
                      (new_kb inp (start w) p) (vector_store w) = (None, s')"
    if "name f \<in> processed ?w1"
  proof (cases rule: ingest_body_cases [where env=env and st="?st" and f=f and inp=inp])
    case (temp e)
    then have "fst (ingest_body env inp f ?st) = Inl e"
      by (simp add: ingest_body_temp_raises)
    from ingest_raised(2) [OF this] that assms(2) show ?thesis
      by (simp add: p1 sidebar_config_simps read_start)
  next
    case (load p e s')
    then have "fst (ingest_body env inp f ?st) = Inl e"
      by (simp add: ingest_body_load_raises)
    from ingest_raised(2) [OF this] that assms(2) show ?thesis
      by (simp add: p1 sidebar_config_simps read_start)
  next
    case (ok p s')
    then show ?thesis
      by (simp add: sidebar_config_simps start_simps new_kb_sidebar_config)
  qed
  have b: "name f \<notin> processed ?w1 \<and>
            (\<forall>inp' f'. uploaded_file inp' = Some f' \<and> name f' = name f \<longrightarrow>
               (\<exists>cs. history (after (run_script env inp' ?w1)) =
                     history ?w1 @ TempWrite (getvalue f') # cs))"
    if r: "fst (ingest_body env inp f ?st) = Inl e" for e
  proof -
    have n1: "name f \<notin> processed ?w1"
      using ingest_raised(2) [OF r] assms(2)
      by (simp add: p1 sidebar_config_simps read_start)
    have "\<exists>cs. history (after (run_script env inp' ?w1)) =
                history ?w1 @ TempWrite (getvalue f') # cs"
      if u: "uploaded_file inp' = Some f'" and n: "name f' = name f" for inp' f'
    proof -
      have "name f' \<notin> processed_files (ss (start ?w1))"
        using n1 n by (simp add: read_start)
      then have sb': "sidebar env inp' (start ?w1) =
                      ingest env inp' f' (sidebar_config inp' (start ?w1))"
        by (rule sidebar_ingest [OF u])
      obtain cs where c: "calls (ingest env inp' f' (sidebar_config inp' (start ?w1))) =
          calls (sidebar_config inp' (start ?w1)) @ TempWrite (getvalue f') # cs"
        using ingest_calls by blast
      obtain ds where "history (after (run_script env inp' ?w1)) =
          calls (sidebar env inp' (start ?w1)) @ ds"
        using run_script_history by blast
      then show ?thesis
        by (simp add: sb' c sidebar_config_simps start_simps)
    qed
    with n1 show ?thesis by blast
  qed
  from a b show ?thesis by blast
qed


text \<open>The services refuse: the first upload of the lease fails in the load, and the
  next execution tries again.\<close>

theorem C9_processed_only_after_load_witness:
  "uploaded_file first_upload = Some lease_pdf \<and>
   name lease_pdf \<notin> processed new_world \<and>
   fst (ingest_body refusing_env first_upload lease_pdf
          (sidebar_config first_upload (start new_world))) = Inl ''embedding failed'' \<and>
   name lease_pdf \<notin> processed (after (run_script refusing_env first_upload new_world)) \<and>
   history (after (run_script refusing_env first_upload
                     (after (run_script refusing_env first_upload new_world)))) =
     [TempWrite ''lease'', KbLoad True True lease_kb,
      TempWrite ''lease'', KbLoad True True lease_kb]"
  using C9_processed_only_after_load [of first_upload lease_pdf new_world refusing_env]
  by (simp add: first_upload_def processed_def script_defs example_defs)

section \<open>The Analyze action\<close>




text \<open>
  C4 (amended). Once the team lead has returned the integrated report, it is run a second
  time, and its prompt is the key-points request followed by the report's content (the
  text \<^verbatim>\<open>None\<close> when the report has no content). When that second run returns, the
  team lead is run a third time, with the recommendations request followed by the same
  report's content, and whether the third run returns or raises no further call follows;
  when the second run raises, there is no third run.
\<close>

theorem C4_report_passed_to_later_calls:
  assumes "current_kb (after (run_script env inp w)) = Some kb"
    and "analyze_button inp" and "select_query inp = Inr q" and "q \<noteq> []"
    and "get_team_response env kb q (at_analyze env inp w) = (Inr rep, st1)"
  shows "(\<exists>pre p. calls st1 = pre @ [AgentRun team_lead p] \<and>
                  agent_run env (length pre) team_lead p = Inr rep) \<and>
         (\<exists>cs. history (after (run_script env inp w)) =
                 calls st1 @
                 AgentRun team_lead
                   (''Summarize the key legal points from this analysis:'' @ [CHR 0x0A] @
                    (case content rep of None \<Rightarrow> ''None'' | Some s \<Rightarrow> s)) # cs \<and>
               (isl (agent_run env (length (calls st1)) team_lead
                       (''Summarize the key legal points from this analysis:'' @ [CHR 0x0A] @
                        (case content rep of None \<Rightarrow> ''None'' | Some s \<Rightarrow> s)))
                  \<longrightarrow> cs = []) \<and>
               (\<not> isl (agent_run env (length (calls st1)) team_lead
                       (''Summarize the key legal points from this analysis:'' @ [CHR 0x0A] @
                        (case content rep of None \<Rightarrow> ''None'' | Some s \<Rightarrow> s)))
                  \<longrightarrow> cs =
                    [AgentRun team_lead
                       (''Provide legal recommendations based on this analysis:'' @ [CHR 0x0A] @
                        (case content rep of None \<Rightarrow> ''None'' | Some s \<Rightarrow> s))]))"
proof -
  have sp: "summary_prompt rep =
      ''Summarize the key legal points from this analysis:'' @ [CHR 0x0A] @
      (case content rep of None \<Rightarrow> ''None'' | Some s \<Rightarrow> s)"
    by (simp add: summary_prompt_def nl_def py_str_def)
  have rp: "recommendations_prompt rep =
      ''Provide legal recommendations based on this analysis:'' @ [CHR 0x0A] @
      (case content rep of None \<Rightarrow> ''None'' | Some s \<Rightarrow> s)"
    by (simp add: recommendations_prompt_def nl_def py_str_def)
  have "history (after (run_script env inp w)) =
          calls (snd (analyze env kb q (at_analyze env inp w)))"
    by (simp add: run_script_analyze [OF assms(1) assms(3) assms(2) assms(4)] at_analyze_def
          finish_def split: prod.splits)
  then have h: "history (after (run_script env inp w)) =
           calls st1 @ AgentRun team_lead (summary_prompt rep) #
           (if isl (agent_run env (length (calls st1)) team_lead (summary_prompt rep)) then []
            else [AgentRun team_lead (recommendations_prompt rep)])"
    by (simp only: analyze_after_report [OF assms(5)])
  show ?thesis
    using get_team_response_returned [OF assms(5)] h
    unfolding sp rp by auto
qed

theorem C4_report_passed_to_later_calls_witness:
  "current_kb (after (run_script working_env analyze_risk lease_loaded)) = Some lease_kb \<and>
   analyze_button analyze_risk \<and>
   select_query analyze_risk =
     Inr ''Identify potential legal risks in the document and cite specific sections.'' \<and>
   fst (get_team_response working_env lease_kb
          ''Identify potential legal risks in the document and cite specific sections.''
          (at_analyze working_env analyze_risk lease_loaded)) = Inr text_response \<and>
   drop 6 (history (after (run_script working_env analyze_risk lease_loaded))) =
     [AgentRun team_lead
        (''Summarize the key legal points from this analysis:'' @ [CHR 0x0A] @ ''text''),
      AgentRun team_lead
        (''Provide legal recommendations based on this analysis:'' @ [CHR 0x0A] @ ''text'')]"
  using C4_report_passed_to_later_calls [of working_env analyze_risk lease_loaded lease_kb
      "''Identify potential legal risks in the document and cite specific sections.''"
      text_response
      "snd (get_team_response working_env lease_kb
          ''Identify potential legal risks in the document and cite specific sections.''
          (at_analyze working_env analyze_risk lease_loaded))"]
  by (simp add: analyze_risk_def lease_loaded_eq current_kb_def at_analyze_def
        text_response_def script_defs example_defs nl_def)

text \<open>
  C4 as stated fails: when the second run of the team lead raises, the exception escapes
  and the third run is never made.
\<close>

theorem C4_counterexample:
  "current_kb (after (run_script failing_once_env analyze_risk lease_loaded)) = Some lease_kb \<and>
   analyze_button analyze_risk \<and>
   select_query analyze_risk =
     Inr ''Identify potential legal risks in the document and cite specific sections.'' \<and>
   fst (get_team_response failing_once_env lease_kb
          ''Identify potential legal risks in the document and cite specific sections.''
          (at_analyze failing_once_env analyze_risk lease_loaded)) = Inr text_response \<and>
   history (after (run_script failing_once_env analyze_risk lease_loaded)) =
     history lease_loaded @
     [AgentRun (legal_researcher lease_kb)
        ''Identify potential legal risks in the document and cite specific sections.'',
      AgentRun (contract_analyst lease_kb)
        ''Identify potential legal risks in the document and cite specific sections.'',
      AgentRun (legal_strategist lease_kb)
        ''Identify potential legal risks in the document and cite specific sections.'',
      AgentRun team_lead (team_prompt text_response text_response text_response),
      AgentRun team_lead (summary_prompt text_response)] \<and>
   uncaught (run_script failing_once_env analyze_risk lease_loaded) = Some ''timeout''"
  by (simp add: analyze_risk_def lease_loaded_eq current_kb_def at_analyze_def
        failing_once_env_def script_defs example_defs)

text \<open>
  C7. Every predefined analysis type gives a non-empty query; and an Analyze action with
  the custom query selected and an empty text draws the warning and makes no agent call.
\<close>

theorem C7_predefined_nonempty_and_empty_custom_rejected:
  "(analysis_type inp \<noteq> CustomQuery \<longrightarrow> (\<exists>q. select_query inp = Inr q \<and> q \<noteq> [])) \<and>
   (analysis_type inp = CustomQuery \<and> text_area inp = [] \<and> analyze_button inp \<and>
    current_kb (after (run_script env inp w)) \<noteq> None \<longrightarrow>
      (\<exists>us. shown (run_script env inp w) =
             us @ [Header ''Select Analysis Type'', Warning ''Please enter a query.'']) \<and>
      filter is_agent_run (history (after (run_script env inp w))) =
        filter is_agent_run (history w) \<and>
      uncaught (run_script env inp w) = None)"
proof -
  have b: "(\<exists>us. shown (run_script env inp w) =
             us @ [Header ''Select Analysis Type'', Warning ''Please enter a query.'']) \<and>
      filter is_agent_run (history (after (run_script env inp w))) =
        filter is_agent_run (history w) \<and>
      uncaught (run_script env inp w) = None"
    if c: "analysis_type inp = CustomQuery" and e: "text_area inp = []"
      and b: "analyze_button inp" and k: "current_kb (after (run_script env inp w)) \<noteq> None"
  proof -
    obtain kb where "knowledge_base (ss (sidebar env inp (start w))) = Some kb"
      using k by (auto simp: run_script_current_kb)
    moreover have "select_query inp = Inr []"
      using c e by (simp add: select_query_custom)
    ultimately have p: "analysis_panel env inp (sidebar env inp (start w)) =
        (Inr (), say (Warning ''Please enter a query.'')
                   (say (Header ''Select Analysis Type'') (sidebar env inp (start w))))"
      using b by (rule analysis_panel_warning)
    have "shown (run_script env inp w) =
            page (sidebar env inp (start w)) @
            [Header ''Select Analysis Type'', Warning ''Please enter a query.'']"
      by (simp add: run_script_def p say_def)
    moreover have "history (after (run_script env inp w)) = calls (sidebar env inp (start w))"
      by (simp add: run_script_def p say_def finish_def)
    moreover have "uncaught (run_script env inp w) = None"
      by (simp add: run_script_def p)
    ultimately show ?thesis
      using sidebar_agent_calls [of env inp w] by simp
  qed
  from select_query_predefined [of inp] b show ?thesis by blast
qed

theorem C7_predefined_nonempty_and_empty_custom_rejected_witness:
  "analysis_type analyze_risk \<noteq> CustomQuery \<and>
   select_query analyze_risk =
     Inr ''Identify potential legal risks in the document and cite specific sections.'' \<and>
   analysis_type empty_query = CustomQuery \<and> text_area empty_query = [] \<and>
   analyze_button empty_query \<and>
   current_kb (after (run_script working_env empty_query lease_loaded)) \<noteq> None \<and>
   shown (run_script working_env empty_query lease_loaded) =
     [Header ''Configuration'', Success ''API key loaded from secrets!'',
      Header ''Document Upload'', Header ''Select Analysis Type'',
      Warning ''Please enter a query.''] \<and>
   history (after (run_script working_env empty_query lease_loaded)) = history lease_loaded"
  using C7_predefined_nonempty_and_empty_custom_rejected [of analyze_risk working_env lease_loaded]
    C7_predefined_nonempty_and_empty_custom_rejected [of empty_query working_env lease_loaded]
  by (simp add: analyze_risk_def empty_query_def lease_loaded_eq current_kb_def
        script_defs example_defs)

text \<open>
  C10. The guard of the Analyze action tests only whether the query is the empty string: a
  custom query that is not empty and consists of whitespace characters only is not
  rejected; no warning is drawn, and, the agent calls returning, the three workers are run
  with that whitespace query and the team lead three times after them.
\<close>

theorem C10_whitespace_query_passes_guard:
  assumes "analysis_type inp = CustomQuery"
    and "text_area inp \<noteq> []" and "list_all is_whitespace (text_area inp)"
    and "analyze_button inp"
    and "current_kb (after (run_script env inp w)) = Some kb"
    and "\<forall>n a q. \<not> isl (agent_run env n a q)"
  shows "Warning ''Please enter a query.'' \<notin> set (shown (run_script env inp w)) \<and>
         (\<exists>pre p4 p5 p6.
            history (after (run_script env inp w)) =
              pre @ [AgentRun (legal_researcher kb) (text_area inp),
                     AgentRun (contract_analyst kb) (text_area inp),
                     AgentRun (legal_strategist kb) (text_area inp),
                     AgentRun team_lead p4, AgentRun team_lead p5, AgentRun team_lead p6] \<and>
            filter is_agent_run pre = filter is_agent_run (history w))"
proof -
  have q: "select_query inp = Inr (text_area inp)"
    using assms(1) by (rule select_query_custom)
  note r = run_script_analyze_returns [OF assms(5) q assms(4) assms(2) assms(6)]
  have "Warning ''Please enter a query.'' \<notin> set (shown (run_script env inp w))"
    by (simp add: r(2) team_tabs_def sidebar_page_no_warning)
  moreover have "history (after (run_script env inp w)) =
      calls (sidebar env inp (start w)) @
      [AgentRun (legal_researcher kb) (text_area inp),
       AgentRun (contract_analyst kb) (text_area inp),
       AgentRun (legal_strategist kb) (text_area inp),
       AgentRun team_lead
         (report_prompt env kb (text_area inp) (length (calls (sidebar env inp (start w))))),
       AgentRun team_lead
         (summary_prompt
            (report env kb (text_area inp) (length (calls (sidebar env inp (start w)))))),
       AgentRun team_lead
         (recommendations_prompt
            (report env kb (text_area inp) (length (calls (sidebar env inp (start w))))))]"
    by (simp add: r(1) team_calls_def)
  ultimately show ?thesis
    using sidebar_agent_calls [of env inp w] by blast
qed

theorem C10_whitespace_query_passes_guard_witness:
  "analysis_type blank_query = CustomQuery \<and>
   text_area blank_query \<noteq> [] \<and> list_all is_whitespace (text_area blank_query) \<and>
   analyze_button blank_query \<and>
   current_kb (after (run_script working_env blank_query lease_loaded)) = Some lease_kb \<and>
   (\<forall>n a q. \<not> isl (agent_run working_env n a q)) \<and>
   Warning ''Please enter a query.''
     \<notin> set (shown (run_script working_env blank_query lease_loaded)) \<and>
   take 3 (drop 2 (history (after (run_script working_env blank_query lease_loaded)))) =
     [AgentRun (legal_researcher lease_kb) [CHR '' '', CHR 0x0A],
      AgentRun (contract_analyst lease_kb) [CHR '' '', CHR 0x0A],
      AgentRun (legal_strategist lease_kb) [CHR '' '', CHR 0x0A]]"
  using C10_whitespace_query_passes_guard [of blank_query working_env lease_loaded lease_kb]
  by (simp add: blank_query_def is_whitespace_def lease_loaded_eq current_kb_def
        script_defs example_defs)

section \<open>The API key\<close>

text \<open>
  C2 (amended). A missing API key is met on every execution of the script, in one of two
  ways. When the secrets cannot be read at all, the lookup of line 46 raises and the
  execution ends there: the exception escapes, only the Configuration header is drawn, no
  library call is made, and the processed names, the knowledge-base handle, the environment
  variable and the vector store are as before. When the secrets are read and hold no key, or an empty one, the error message
  is shown in the sidebar, the environment variable is as before, and nothing is blocked:
  an upload whose name is not yet processed is still ingested, starting with the write of
  the temporary file, and an Analyze action with a knowledge base in the session and a
  non-empty query still calls the legal researcher, as the first agent call of the
  execution.
\<close>

theorem C2_missing_key_stops_or_reports:
  "uncaught (run_page env (Inl e) inp w) = Some e \<and>
   shown (run_page env (Inl e) inp w) = [Header ''Configuration''] \<and>
   history (after (run_page env (Inl e) inp w)) = history w \<and>
   vector_store (after (run_page env (Inl e) inp w)) = vector_store w \<and>
   os_environ (after (run_page env (Inl e) inp w)) = os_environ w \<and>
   processed (after (run_page env (Inl e) inp w)) = processed w \<and>
   current_kb (after (run_page env (Inl e) inp w)) = current_kb w \<and>
   (\<not> truthy key \<longrightarrow>
      Error ''Missing Google API Key in Streamlit secrets!''
        \<in> set (shown (run_page env (Inr key) inp w)) \<and>
      os_environ (after (run_page env (Inr key) inp w)) = os_environ w \<and>
      (\<forall>f. uploaded_file inp = Some f \<and> name f \<notin> processed w \<longrightarrow>
         (\<exists>cs. history (after (run_page env (Inr key) inp w)) =
                 history w @ TempWrite (getvalue f) # cs)) \<and>
      (\<forall>kb q. current_kb (after (run_page env (Inr key) inp w)) = Some kb \<and>
              analyze_button inp \<and> select_query inp = Inr q \<and> q \<noteq> [] \<longrightarrow>
         (\<exists>pre cs. history (after (run_page env (Inr key) inp w)) =
                     pre @ AgentRun (legal_researcher kb) q # cs \<and>
                   filter is_agent_run pre = filter is_agent_run (history w))))"
proof -
  let ?inp = "inp\<lparr>secret_google_api_key := key\<rparr>"
  have stop: "uncaught (run_page env (Inl e) inp w) = Some e \<and>
   shown (run_page env (Inl e) inp w) = [Header ''Configuration''] \<and>
   history (after (run_page env (Inl e) inp w)) = history w \<and>
   vector_store (after (run_page env (Inl e) inp w)) = vector_store w \<and>
   os_environ (after (run_page env (Inl e) inp w)) = os_environ w \<and>
   processed (after (run_page env (Inl e) inp w)) = processed w \<and>
   current_kb (after (run_page env (Inl e) inp w)) = current_kb w"
    by (simp add: run_page_def say_def start_def finish_def processed_def current_kb_def
          init_session_state_def)
  have r: "run_page env (Inr key) inp w = run_script env ?inp w"
    by (simp add: run_page_def)
  have go: "Error ''Missing Google API Key in Streamlit secrets!''
        \<in> set (shown (run_script env ?inp w)) \<and>
      os_environ (after (run_script env ?inp w)) = os_environ w \<and>
      (\<forall>f. uploaded_file inp = Some f \<and> name f \<notin> processed w \<longrightarrow>
         (\<exists>cs. history (after (run_script env ?inp w)) =
                 history w @ TempWrite (getvalue f) # cs)) \<and>
      (\<forall>kb q. current_kb (after (run_script env ?inp w)) = Some kb \<and>
              analyze_button inp \<and> select_query inp = Inr q \<and> q \<noteq> [] \<longrightarrow>
         (\<exists>pre cs. history (after (run_script env ?inp w)) =
                     pre @ AgentRun (legal_researcher kb) q # cs \<and>
                   filter is_agent_run pre = filter is_agent_run (history w)))"
    if nk: "\<not> truthy key"
  proof -
    have t: "\<not> truthy (secret_google_api_key ?inp)" using nk by simp
    have sq: "select_query ?inp = select_query inp" by (simp add: select_query_def)
    have i: "\<exists>cs. history (after (run_script env ?inp w)) =
                 history w @ TempWrite (getvalue f) # cs"
      if "uploaded_file inp = Some f" and "name f \<notin> processed w" for f
      using run_script_starts_ingestion [of ?inp f w env] that by simp
    have a: "\<exists>pre cs. history (after (run_script env ?inp w)) =
                     pre @ AgentRun (legal_researcher kb) q # cs \<and>
                   filter is_agent_run pre = filter is_agent_run (history w)"
      if "current_kb (after (run_script env ?inp w)) = Some kb" and "analyze_button inp"
        and "select_query inp = Inr q" and "q \<noteq> []" for kb q
      using run_script_first_agent_call [of env ?inp w kb q] that sq by simp
    from run_script_without_key [OF t, of env w] i a show ?thesis by blast
  qed
  from stop go show ?thesis unfolding r by blast
qed

text \<open>Secrets without a key: an upload in a new session, and an Analyze action on the
  loaded lease; and no secrets file.\<close>

theorem C2_missing_key_stops_or_reports_witness:
  "\<not> truthy None \<and>
   uploaded_file no_key_upload = Some lease_pdf \<and> name lease_pdf \<notin> processed new_world \<and>
   Error ''Missing Google API Key in Streamlit secrets!''
     \<in> set (shown (run_page refusing_env (Inr None) no_key_upload new_world)) \<and>
   history (after (run_page refusing_env (Inr None) no_key_upload new_world)) =
     [TempWrite ''lease'', KbLoad True True lease_kb] \<and>
   current_kb (after (run_page working_env (Inr None) no_key_analyze lease_loaded))
     = Some lease_kb \<and>
   analyze_button no_key_analyze \<and>
   hd (drop 2 (history (after (run_page working_env (Inr None) no_key_analyze lease_loaded)))) =
     AgentRun (legal_researcher lease_kb)
       ''Analyze this contract using the knowledge base. Identify key terms, obligations, and risks.'' \<and>
   shown (run_page working_env (Inl ''no secrets file'') no_key_analyze lease_loaded) =
     [Header ''Configuration'']"
  using C2_missing_key_stops_or_reports
          [of refusing_env "''no secrets file''" no_key_upload new_world None]
        C2_missing_key_stops_or_reports
          [of working_env "''no secrets file''" no_key_analyze lease_loaded None]
  by (simp add: run_page_def no_key_upload_def no_key_analyze_def truthy_def lease_loaded_eq
        current_kb_def processed_def script_defs example_defs)

text \<open>
  C2 as stated fails both ways. With secrets that hold no key and services that refuse, a
  new session's upload fails in the load and leaves its knowledge-base handle in the
  session, and the next execution, with Analyze pressed, tries the load again and then
  calls the legal researcher. With no secrets file, the page does not stay functional: the
  execution ends at line 46 with the exception and draws nothing but the Configuration
  header.
\<close>

theorem C2_counterexample:
  "session new_world = None \<and>
   Error ''Missing Google API Key in Streamlit secrets!''
     \<in> set (shown (run_page refusing_env (Inr None) no_key_upload new_world)) \<and>
   history (after (run_page refusing_env (Inr None) no_key_analyze
                     (after (run_page refusing_env (Inr None) no_key_upload new_world)))) =
     [TempWrite ''lease'', KbLoad True True lease_kb,
      TempWrite ''lease'', KbLoad True True lease_kb,
      AgentRun (legal_researcher lease_kb)
        ''Analyze this contract using the knowledge base. Identify key terms, obligations, and risks.''] \<and>
   shown (run_page refusing_env (Inl ''no secrets file'') no_key_analyze lease_loaded) =
     [Header ''Configuration''] \<and>
   uncaught (run_page refusing_env (Inl ''no secrets file'') no_key_analyze lease_loaded) =
     Some ''no secrets file''"
  by (simp add: run_page_def no_key_upload_def no_key_analyze_def lease_loaded_eq
        script_defs example_defs)

section \<open>The vector store\<close>




end
